theory Spec2Isabelle
  imports Main "HOL-Library.Char_ord" "HOL-Library.List_Lexorder"
begin

section \<open>Python values, strings and paths\<close>

text \<open>
  The values an optional attribute of a source-file object may carry. Only their
  presence and their equality with the string \<open>'dut'\<close> are ever inspected.
\<close>

datatype pyval = PyNone | PyBool bool | PyInt int | PyStr string

text \<open>The line terminator \<open>'\n'\<close>.\<close>

definition newline :: string where
  "newline = [CHR 0x0A]"

text \<open>\<open>sep.join(xs)\<close> for a list of strings.\<close>

fun str_join :: "string \<Rightarrow> string list \<Rightarrow> string" where
  "str_join sep [] = []"
| "str_join sep [x] = x"
| "str_join sep (x # y # ys) = x @ sep @ str_join sep (y # ys)"

text \<open>
  \<open>os.path.join(a, b)\<close> on a POSIX system: an absolute second component replaces
  the first; otherwise the components are concatenated, with a separator unless the first
  is empty or already ends with one.
\<close>

definition os_path_join :: "string \<Rightarrow> string \<Rightarrow> string" where
  "os_path_join a b =
     (if take 1 b = ''/'' then b
      else if a = [] \<or> last a = CHR ''/'' then a @ b
      else a @ ''/'' @ b)"

section \<open>The objects read by \<open>configure_main\<close>\<close>

text \<open>
  A source-file object as \<open>_get_fileset_files\<close> returns it. The attributes
  \<open>is_include_file\<close> and \<open>partof\<close> are probed with \<open>hasattr\<close>: \<open>None\<close> here
  means that the object has no such attribute, \<open>Some v\<close> that it has it with value
  \<open>v\<close>. The attribute \<open>logical_name\<close> is always present; \<open>None\<close> is Python's
  \<open>None\<close> and \<open>Some s\<close> the string \<open>s\<close>.
\<close>

record src_file =
  name :: string
  file_type :: string
  logical_name :: "string option"
  is_include_file :: "pyval option"
  partof :: "pyval option"

text \<open>
  An entry of \<open>tool_options\<close>: \<open>get_doc\<close> declares scalar members (strings) and
  list attributes (lists of strings).
\<close>

datatype opt_value = OptString string | OptList "string list"

text \<open>Truth value of \<open>tool_options.get(key, '')\<close>.\<close>

fun opt_truthy :: "opt_value option \<Rightarrow> bool" where
  "opt_truthy None = False"
| "opt_truthy (Some (OptString s)) = (s \<noteq> [])"
| "opt_truthy (Some (OptList xs)) = (xs \<noteq> [])"

text \<open>
  The items \<open>' '.join\<close> iterates over: the elements of a list, the characters of a
  string.
\<close>

fun opt_items :: "opt_value option \<Rightarrow> string list" where
  "opt_items None = []"
| "opt_items (Some (OptString s)) = map (\<lambda>c. [c]) s"
| "opt_items (Some (OptList xs)) = xs"

text \<open>
  The value of an instance attribute as \<open>_dump\<close> tells them apart: \<open>None\<close>, a
  dictionary, a list (given by the \<open>str\<close> of its elements) or anything else (given by
  its \<open>str\<close>).
\<close>

datatype 'v attr =
  AttrNone | AttrDict "(string \<times> 'v) list" | AttrList "string list" | AttrOther string

text \<open>
  The attributes of the \<open>Palladium\<close> object that \<open>configure_main\<close> reads. The two
  parameter dictionaries are association lists in the iteration order of \<open>items()\<close>;
  \<open>'v\<close> is the type of parameter values, whose formatter \<open>_param_value_str\<close> is
  inherited from the host framework and is a parameter of the model. The attribute
  \<open>name\<close> of the object is \<open>name_self\<close> here; \<open>name\<close> is the attribute of a source
  file. \<open>dict_self\<close> is \<open>self.__dict__\<close> as \<open>_dump\<close> iterates it: every instance
  attribute with its value, in the order of \<open>items()\<close>.
\<close>

record 'v palladium =
  name_self :: string
  work_root :: string
  vlogdefine :: "(string \<times> 'v) list"
  vlogparam :: "(string \<times> 'v) list"
  tool_options :: "string \<rightharpoonup> opt_value"
  dict_self :: "(string \<times> 'v attr) list"

section \<open>Standard output and the file system\<close>

datatype error =
  FileNotFoundError | PermissionError | IsADirectoryError | BrokenPipeError |
  UnicodeEncodeError | OSError nat

text \<open>
  \<open>files\<close> maps a path to the bytes of the file there, \<open>handles\<close> lists the paths
  of the file objects that are open for writing (most recent first), \<open>open_calls\<close>
  records every call of \<open>open\<close> in order and \<open>stdout\<close> is the text printed so far.
  The other four fields say which error, if any, an operation raises: printing a text,
  opening a path for writing, writing a text to the file object of a path, closing the
  file object of a path. No operation changes them.
\<close>

record world =
  files :: "string \<rightharpoonup> string"
  handles :: "string list"
  open_calls :: "string list"
  stdout :: string
  print_error :: "string \<Rightarrow> error option"
  open_error :: "string \<Rightarrow> error option"
  write_error :: "string \<Rightarrow> string \<Rightarrow> error option"
  close_error :: "string \<Rightarrow> error option"

text \<open>\<open>print(s)\<close>.\<close>

definition py_print :: "string \<Rightarrow> world \<Rightarrow> (error + unit) \<times> world" where
  "py_print s w =
     (case print_error w s of
        Some e \<Rightarrow> (Inl e, w)
      | None \<Rightarrow> (Inr (), w\<lparr>stdout := stdout w @ s @ newline\<rparr>))"

text \<open>\<open>open(p, 'w')\<close>: the file is created or truncated; the file object is its path.\<close>

definition py_open_w :: "string \<Rightarrow> world \<Rightarrow> (error + string) \<times> world" where
  "py_open_w p w =
     (let w1 = w\<lparr>open_calls := open_calls w @ [p]\<rparr> in
      case open_error w p of
        Some e \<Rightarrow> (Inl e, w1)
      | None \<Rightarrow> (Inr p, w1\<lparr>files := (files w1)(p \<mapsto> []), handles := p # handles w1\<rparr>))"

text \<open>
  \<open>h.write(s)\<close>. Text reaches the file as it is written; what a failing \<open>write\<close>
  may have put there before it raises is left out.
\<close>

definition fwrite :: "string \<Rightarrow> string \<Rightarrow> world \<Rightarrow> (error + unit) \<times> world" where
  "fwrite h s w =
     (case write_error w h s of
        Some e \<Rightarrow> (Inl e, w)
      | None \<Rightarrow>
          (Inr (),
           w\<lparr>files := (files w)(h \<mapsto> (case files w h of None \<Rightarrow> s | Some c \<Rightarrow> c @ s))\<rparr>))"

text \<open>\<open>h.close()\<close>: the file object is closed also when closing raises.\<close>

definition fclose :: "string \<Rightarrow> world \<Rightarrow> (error + unit) \<times> world" where
  "fclose h w =
     (case close_error w h of
        Some e \<Rightarrow> (Inl e, w\<lparr>handles := remove1 h (handles w)\<rparr>)
      | None \<Rightarrow> (Inr (), w\<lparr>handles := remove1 h (handles w)\<rparr>))"

section \<open>\<open>Palladium._dump\<close>\<close>

text \<open>\<open>s.endswith(t)\<close>.\<close>

definition endswith :: "string \<Rightarrow> string \<Rightarrow> bool" where
  "endswith s t \<longleftrightarrow> length t \<le> length s \<and> drop (length s - length t) s = t"

text \<open>The texts that the body of the loop prints for one attribute, one per \<open>print\<close>.\<close>

fun dump_attr :: "('v \<Rightarrow> string) \<Rightarrow> string \<Rightarrow> string \<Rightarrow> 'v attr \<Rightarrow> string list" where
  "dump_attr param_value_str I k AttrNone = [I @ ''- '' @ k @ '': None'']"
| "dump_attr param_value_str I k (AttrDict v) =
     (if length v = 0 then [I @ ''- '' @ k @ '': {}'']
      else (I @ ''- '' @ k @ '':'') #
           map (\<lambda>(k2, v2). I @ ''   - '' @ k2 @ '': '' @ param_value_str v2) v)"
| "dump_attr param_value_str I k (AttrList v) =
     (if length v = 0 then [I @ ''- '' @ k @ '': []'']
      else (I @ ''- '' @ k @ '':'') # map (\<lambda>v2. I @ ''   - '' @ v2) v)"
| "dump_attr param_value_str I k (AttrOther v) = [I @ ''- '' @ k @ '': '' @ v]"

text \<open>
  All the texts \<open>_dump\<close> prints, in order: the attributes sorted by name, those whose
  name ends with \<open>env\<close> left out, and the empty text last.
\<close>

definition dump_texts :: "('v \<Rightarrow> string) \<Rightarrow> 'v palladium \<Rightarrow> string \<Rightarrow> string list" where
  "dump_texts param_value_str self I =
     concat (map (\<lambda>(k, v). if endswith k ''env'' then [] else dump_attr param_value_str I k v)
               (sort_key fst (dict_self self))) @ [[]]"

text \<open>Printing texts one after the other; the first error ends it.\<close>

fun print_all :: "string list \<Rightarrow> world \<Rightarrow> (error + unit) \<times> world" where
  "print_all [] w = (Inr (), w)"
| "print_all (s # ss) w =
     (case py_print s w of
        (Inl e, w') \<Rightarrow> (Inl e, w')
      | (Inr u, w') \<Rightarrow> print_all ss w')"

definition dump :: "('v \<Rightarrow> string) \<Rightarrow> 'v palladium \<Rightarrow> string \<Rightarrow> world \<Rightarrow> (error + unit) \<times> world" where
  "dump param_value_str self I w = print_all (dump_texts param_value_str self I) w"

section \<open>\<open>Palladium.configure_main\<close>\<close>

text \<open>The block under ``Compose the line'': \<open>args\<close> grows by appending.\<close>

definition compose_args ::
  "('v \<Rightarrow> string) \<Rightarrow> 'v palladium \<Rightarrow> string list \<Rightarrow> src_file \<Rightarrow> string list" where
  "compose_args param_value_str self incdirs f =
     (let args = [];
          args = (if file_type f = ''systemVerilogSource'' then args @ [''-sv''] else args);
          args = (case logical_name f of
                    None \<Rightarrow> args
                  | Some l \<Rightarrow> if l \<noteq> [] then args @ [''-lib '' @ l] else args);
          args = fold (\<lambda>(k, v) a. a @ [''+define+'' @ k @ ''='' @ param_value_str v])
                   (vlogdefine self) args;
          args = fold (\<lambda>(k, v) a. a @ [k @ ''='' @ param_value_str v])
                   (vlogparam self) args;
          args = fold (\<lambda>v a. a @ [''+incdir+'' @ v]) incdirs args;
          args = (if opt_truthy (tool_options self ''vlan_opts'')
                  then args @ [str_join '' '' (opt_items (tool_options self ''vlan_opts''))]
                  else args)
      in args @ [name f])"

text \<open>
  The loop over \<open>src_files\<close>; \<open>efh\<close> and \<open>sfh\<close> are the two open file objects.
  An error raised by \<open>write\<close> ends the loop.
\<close>

fun write_entries ::
  "('v \<Rightarrow> string) \<Rightarrow> 'v palladium \<Rightarrow> string list \<Rightarrow> string \<Rightarrow> string \<Rightarrow>
   src_file list \<Rightarrow> world \<Rightarrow> (error + unit) \<times> world" where
  "write_entries param_value_str self incdirs efh sfh [] w = (Inr (), w)"
| "write_entries param_value_str self incdirs efh sfh (f # src_files) w =
     (if file_type f = ''verilogSource'' \<or> file_type f = ''systemVerilogSource'' then
        (if is_include_file f \<noteq> None then
           write_entries param_value_str self incdirs efh sfh src_files w
         else
           (let args = compose_args param_value_str self incdirs f in
            if partof f = Some (PyStr ''dut'') then
              (case fwrite efh (str_join '' '' args @ newline) w of
                 (Inl e, w') \<Rightarrow> (Inl e, w')
               | (Inr u, w') \<Rightarrow>
                   write_entries param_value_str self incdirs efh sfh src_files w')
            else
              (case fwrite sfh (str_join '' '' args @ newline) w of
                 (Inl e, w') \<Rightarrow> (Inl e, w')
               | (Inr u, w') \<Rightarrow>
                   write_entries param_value_str self incdirs efh sfh src_files w')))
      else write_entries param_value_str self incdirs efh sfh src_files w)"

text \<open>
  The method itself. Its second argument is the pair \<open>(src_files, incdirs)\<close> that
  \<open>_get_fileset_files\<close> returns. Nothing is caught: an error raised by \<open>print\<close>,
  \<open>open\<close>, \<open>write\<close> or \<open>close\<close> leaves the method at once, with the world as it is
  at that point.
\<close>

definition configure_main ::
  "('v \<Rightarrow> string) \<Rightarrow> 'v palladium \<Rightarrow> src_file list \<times> string list \<Rightarrow> world \<Rightarrow>
   (error + unit) \<times> world" where
  "configure_main param_value_str self fileset w =
     (case dump param_value_str self [] w of
        (Inl e, w0) \<Rightarrow> (Inl e, w0)
      | (Inr u, w0) \<Rightarrow>
         (case fileset of (src_files, incdirs) \<Rightarrow>
           (let emu_filelist_file =
                  os_path_join (work_root self) (name_self self @ ''.emu.f'') in
            (case py_open_w emu_filelist_file w0 of
               (Inl e, w1) \<Rightarrow> (Inl e, w1)
             | (Inr efh, w1) \<Rightarrow>
                (let sim_filelist_file =
                       os_path_join (work_root self) (name_self self @ ''.sim.f'') in
                 (case py_open_w sim_filelist_file w1 of
                    (Inl e, w2) \<Rightarrow> (Inl e, w2)
                  | (Inr sfh, w2) \<Rightarrow>
                     (case write_entries param_value_str self incdirs efh sfh src_files w2 of
                        (Inl e, w3) \<Rightarrow> (Inl e, w3)
                      | (Inr u, w3) \<Rightarrow>
                         (case fclose efh w3 of
                            (Inl e, w4) \<Rightarrow> (Inl e, w4)
                          | (Inr u, w4) \<Rightarrow>
                             (case fclose sfh w4 of
                                (Inl e, w5) \<Rightarrow> (Inl e, w5)
                              | (Inr u, w5) \<Rightarrow> (Inr (), w5))))))))))"

section \<open>Vocabulary of the specification\<close>

text \<open>
  The specification speaks of eligible descriptors, of descriptors that belong to the
  device under test, of the line of a descriptor and of the two output paths. Each is
  defined here by the test or the expression of \<open>configure_main\<close> that decides it.
\<close>

definition eligible :: "src_file \<Rightarrow> bool" where
  "eligible f \<longleftrightarrow>
     (file_type f = ''verilogSource'' \<or> file_type f = ''systemVerilogSource'') \<and>
     is_include_file f = None"

definition belongs_to_dut :: "src_file \<Rightarrow> bool" where
  "belongs_to_dut f \<longleftrightarrow> partof f = Some (PyStr ''dut'')"

definition entry_line ::
  "('v \<Rightarrow> string) \<Rightarrow> 'v palladium \<Rightarrow> string list \<Rightarrow> src_file \<Rightarrow> string" where
  "entry_line param_value_str self incdirs f =
     str_join '' '' (compose_args param_value_str self incdirs f) @ newline"

definition emu_filelist_file :: "'v palladium \<Rightarrow> string" where
  "emu_filelist_file self = os_path_join (work_root self) (name_self self @ ''.emu.f'')"

definition sim_filelist_file :: "'v palladium \<Rightarrow> string" where
  "sim_filelist_file self = os_path_join (work_root self) (name_self self @ ''.sim.f'')"

definition emu_entries :: "src_file list \<Rightarrow> src_file list" where
  "emu_entries src_files = filter (\<lambda>f. eligible f \<and> belongs_to_dut f) src_files"

definition sim_entries :: "src_file list \<Rightarrow> src_file list" where
  "sim_entries src_files = filter (\<lambda>f. eligible f \<and> \<not> belongs_to_dut f) src_files"

text \<open>The number of newline characters of a text.\<close>

definition line_count :: "string \<Rightarrow> nat" where
  "line_count s = count_list s (CHR 0x0A)"

text \<open>
  The first error of a sequence of operations, each given by the error it raises, if any.
\<close>

fun first_error :: "error option list \<Rightarrow> error option" where
  "first_error [] = None"
| "first_error (None # es) = first_error es"
| "first_error (Some e # es) = Some e"

text \<open>
  The operations of a run that can raise, in the order in which the run comes to them,
  each with the error it raises there: the prints of \<open>_dump\<close>, the two calls of
  \<open>open\<close>, one \<open>write\<close> for each eligible descriptor, the two calls of \<open>close\<close>.
\<close>

definition io_errors ::
  "('v \<Rightarrow> string) \<Rightarrow> 'v palladium \<Rightarrow> src_file list \<times> string list \<Rightarrow> world \<Rightarrow>
   error option list" where
  "io_errors param_value_str self fileset w =
     map (print_error w) (dump_texts param_value_str self []) @
     [open_error w (emu_filelist_file self), open_error w (sim_filelist_file self)] @
     map (\<lambda>f. write_error w
                (if belongs_to_dut f then emu_filelist_file self else sim_filelist_file self)
                (entry_line param_value_str self (snd fileset) f))
       (filter eligible (fst fileset)) @
     [close_error w (emu_filelist_file self), close_error w (sim_filelist_file self)]"

section \<open>A worked example\<close>

text \<open>
  The example of the specification: a SystemVerilog file of the device under test in
  library \<open>worklib\<close>, one define \<open>FOO=1\<close> and one include directory \<open>/inc\<close>;
  beside it a Verilog test bench file and an include file. Parameter values are strings,
  formatted verbatim.
\<close>

definition example_self :: "string palladium" where
  "example_self =
     \<lparr>name_self = ''top'', work_root = ''/w'', vlogdefine = [(''FOO'', ''1'')],
      vlogparam = [], tool_options = Map.empty,
      dict_self = [(''name'', AttrOther ''top''), (''work_root'', AttrOther ''/w''),
                   (''toplevel'', AttrNone), (''vlogdefine'', AttrDict [(''FOO'', ''1'')]),
                   (''vlogparam'', AttrDict []), (''tool_options'', AttrDict []),
                   (''files'', AttrList [''dut.sv'', ''tb.v'']), (''env'', AttrOther ''x'')]\<rparr>"

definition example_dut :: src_file where
  "example_dut =
     \<lparr>name = ''dut.sv'', file_type = ''systemVerilogSource'', logical_name = Some ''worklib'',
      is_include_file = None, partof = Some (PyStr ''dut'')\<rparr>"

definition example_tb :: src_file where
  "example_tb =
     \<lparr>name = ''tb.v'', file_type = ''verilogSource'', logical_name = Some [],
      is_include_file = None, partof = None\<rparr>"

definition example_inc :: src_file where
  "example_inc =
     \<lparr>name = ''defs.svh'', file_type = ''systemVerilogSource'', logical_name = None,
      is_include_file = Some (PyBool False), partof = Some (PyStr ''dut'')\<rparr>"

definition example_other :: src_file where
  "example_other =
     \<lparr>name = ''mem.v'', file_type = ''verilogSource'', logical_name = None,
      is_include_file = None, partof = Some (PyStr ''DUT'')\<rparr>"

definition example_fileset :: "src_file list \<times> string list" where
  "example_fileset = ([example_dut, example_tb, example_inc], [''/inc''])"

definition example_full :: "string palladium" where
  "example_full =
     \<lparr>name_self = ''top'', work_root = ''/w/'',
      vlogdefine = [(''B'', ''2''), (''A'', ''1'')],
      vlogparam = [(''P'', ''3''), (''Q'', ''x'')],
      tool_options = [''hw_model'' \<mapsto> OptString ''z1'',
                      ''vlan_opts'' \<mapsto> OptList [''-a'', ''-b'']],
      dict_self = []\<rparr>"

definition example_empty_define :: "string palladium" where
  "example_empty_define =
     \<lparr>name_self = ''top'', work_root = ''/w'', vlogdefine = [(''FOO'', [])],
      vlogparam = [], tool_options = Map.empty, dict_self = []\<rparr>"

text \<open>
  Worlds: an empty one and one with an older emulation file, in both of which no
  operation raises; then worlds in which one operation raises.
\<close>

definition example_world :: world where
  "example_world =
     \<lparr>files = Map.empty, handles = [], open_calls = [], stdout = [],
      print_error = (\<lambda>s. None), open_error = (\<lambda>p. None),
      write_error = (\<lambda>p s. None), close_error = (\<lambda>p. None)\<rparr>"

definition example_stale_world :: world where
  "example_stale_world =
     \<lparr>files = [''/w/top.emu.f'' \<mapsto> ''old line'', ''/w/notes.txt'' \<mapsto> ''keep''],
      handles = [''/w/log''], open_calls = [''/w/log''], stdout = ''hello'',
      print_error = (\<lambda>s. None), open_error = (\<lambda>p. None),
      write_error = (\<lambda>p s. None), close_error = (\<lambda>p. None)\<rparr>"

definition example_emu_denied :: world where
  "example_emu_denied =
     example_stale_world
       \<lparr>open_error := (\<lambda>p. if p = ''/w/top.emu.f'' then Some PermissionError else None)\<rparr>"

definition example_sim_denied :: world where
  "example_sim_denied =
     example_stale_world
       \<lparr>open_error := (\<lambda>p. if p = ''/w/top.sim.f'' then Some IsADirectoryError else None)\<rparr>"

definition example_stdout_closed :: world where
  "example_stdout_closed = example_stale_world\<lparr>print_error := (\<lambda>s. Some BrokenPipeError)\<rparr>"

definition example_disk_full :: world where
  "example_disk_full =
     example_stale_world
       \<lparr>write_error := (\<lambda>p s. if p = ''/w/top.sim.f'' then Some (OSError 28) else None)\<rparr>"

definition example_close_fails :: world where
  "example_close_fails =
     example_stale_world
       \<lparr>close_error := (\<lambda>p. if p = ''/w/top.emu.f'' then Some (OSError 5) else None)\<rparr>"

section \<open>Properties of the parts\<close>

lemma os_path_join_suffix: "\<exists>p. os_path_join a b = p @ b"
  by (auto simp: os_path_join_def intro: exI [of _ "[]"] exI [of _ "a @ ''/''"])

lemma filelist_files_distinct: "emu_filelist_file self \<noteq> sim_filelist_file self"
proof
  assume eq: "emu_filelist_file self = sim_filelist_file self"
  obtain p where p: "emu_filelist_file self = p @ name_self self @ ''.emu.f''"
    unfolding emu_filelist_file_def using os_path_join_suffix by blast
  obtain q where q: "sim_filelist_file self = q @ name_self self @ ''.sim.f''"
    unfolding sim_filelist_file_def using os_path_join_suffix by blast
  from eq p q have "(p @ name_self self) @ ''.emu.f'' = (q @ name_self self) @ ''.sim.f''"
    by simp
  then have "''.emu.f'' = ''.sim.f''"
    by (subst (asm) append_eq_append_conv) simp_all
  then show False by simp
qed

lemma fold_snoc_map: "fold (\<lambda>x a. a @ [g x]) xs a = a @ map g xs"
  by (induction xs arbitrary: a) simp_all

lemma fold_snoc_map_pair:
  "fold (\<lambda>(k, v) a. a @ [g k v]) xs a = a @ map (\<lambda>(k, v). g k v) xs"
  by (induction xs arbitrary: a) (simp_all split: prod.splits)

lemma compose_args_closed:
  "compose_args pvs self incdirs f =
     (if file_type f = ''systemVerilogSource'' then [''-sv''] else []) @
     (case logical_name f of None \<Rightarrow> [] | Some l \<Rightarrow> if l \<noteq> [] then [''-lib '' @ l] else []) @
     map (\<lambda>(k, v). ''+define+'' @ k @ ''='' @ pvs v) (vlogdefine self) @
     map (\<lambda>(k, v). k @ ''='' @ pvs v) (vlogparam self) @
     map (\<lambda>d. ''+incdir+'' @ d) incdirs @
     (if opt_truthy (tool_options self ''vlan_opts'')
      then [str_join '' '' (opt_items (tool_options self ''vlan_opts''))] else []) @
     [name f]"
  by (simp add: compose_args_def fold_snoc_map fold_snoc_map_pair split: option.splits)

subsection \<open>The first error\<close>

lemma first_error_append:
  "first_error (xs @ ys) = (case first_error xs of Some e \<Rightarrow> Some e | None \<Rightarrow> first_error ys)"
  by (induction xs rule: first_error.induct) simp_all

lemma first_error_all_None: "(\<forall>x\<in>set xs. x = None) \<Longrightarrow> first_error xs = None"
  by (induction xs rule: first_error.induct) simp_all

subsection \<open>Printing\<close>

lemma print_all_world: "\<exists>out. snd (print_all ss w) = w\<lparr>stdout := out\<rparr>"
proof (induction ss arbitrary: w)
  case Nil
  have "w = w\<lparr>stdout := stdout w\<rparr>" by simp
  then show ?case by (metis print_all.simps(1) snd_conv)
next
  case (Cons s ss)
  show ?case
  proof (cases "print_error w s")
    case (Some e)
    have "w = w\<lparr>stdout := stdout w\<rparr>" by simp
    with Some show ?thesis by (auto simp: py_print_def intro: exI [of _ "stdout w"])
  next
    case None
    from Cons [of "w\<lparr>stdout := stdout w @ s @ newline\<rparr>"] None
    show ?thesis by (auto simp: py_print_def)
  qed
qed

lemma print_all_fst:
  "fst (print_all ss w) =
   (case first_error (map (print_error w) ss) of None \<Rightarrow> Inr () | Some e \<Rightarrow> Inl e)"
proof (induction ss arbitrary: w)
  case Nil
  then show ?case by simp
next
  case (Cons s ss)
  show ?case
  proof (cases "print_error w s")
    case (Some e)
    then show ?thesis by (simp add: py_print_def)
  next
    case None
    from Cons [of "w\<lparr>stdout := stdout w @ s @ newline\<rparr>"] None
    show ?thesis by (simp add: py_print_def)
  qed
qed

lemma dump_world: "\<exists>out. snd (dump pvs self I w) = w\<lparr>stdout := out\<rparr>"
  unfolding dump_def by (rule print_all_world)

lemma dump_fst:
  "fst (dump pvs self I w) =
   (case first_error (map (print_error w) (dump_texts pvs self I)) of
      None \<Rightarrow> Inr () | Some e \<Rightarrow> Inl e)"
  unfolding dump_def by (rule print_all_fst)

subsection \<open>The loop\<close>

lemma write_entries_append:
  "write_entries pvs self incdirs efh sfh (xs @ ys) w =
   (case write_entries pvs self incdirs efh sfh xs w of
      (Inl e, w') \<Rightarrow> (Inl e, w')
    | (Inr u, w') \<Rightarrow> write_entries pvs self incdirs efh sfh ys w')"
  by (induction xs arbitrary: w) (simp_all add: Let_def split: prod.splits sum.splits)

lemma write_entries_skip:
  "\<not> eligible f \<Longrightarrow>
   write_entries pvs self incdirs efh sfh (f # fs) w =
   write_entries pvs self incdirs efh sfh fs w"
  by (auto simp: eligible_def)

lemma write_entries_step:
  assumes "eligible f"
  shows "write_entries pvs self incdirs efh sfh (f # fs) w =
         (case fwrite (if belongs_to_dut f then efh else sfh) (entry_line pvs self incdirs f) w of
            (Inl e, w') \<Rightarrow> (Inl e, w')
          | (Inr u, w') \<Rightarrow> write_entries pvs self incdirs efh sfh fs w')"
  using assms by (simp add: eligible_def belongs_to_dut_def entry_line_def)

lemma write_entries_drop:
  assumes "\<not> eligible f"
  shows "write_entries pvs self incdirs efh sfh (xs @ f # ys) w =
         write_entries pvs self incdirs efh sfh (xs @ ys) w"
  unfolding write_entries_append write_entries_skip [OF assms] ..

lemma write_entries_world:
  "snd (write_entries pvs self incdirs efh sfh xs w) =
   w\<lparr>files := files (snd (write_entries pvs self incdirs efh sfh xs w))\<rparr>"
proof (induction xs arbitrary: w)
  case Nil
  then show ?case by simp
next
  case (Cons f fs)
  show ?case
  proof (cases "eligible f")
    case False
    show ?thesis
      unfolding write_entries_skip [OF False] by (rule Cons)
  next
    case True
    let ?h = "if belongs_to_dut f then efh else sfh"
    show ?thesis
    proof (cases "write_error w ?h (entry_line pvs self incdirs f)")
      case (Some e)
      then show ?thesis
        unfolding write_entries_step [OF True] by (simp add: fwrite_def)
    next
      case None
      let ?w = "w\<lparr>files := (files w)(?h \<mapsto>
                  (case files w ?h of None \<Rightarrow> entry_line pvs self incdirs f
                   | Some c \<Rightarrow> c @ entry_line pvs self incdirs f))\<rparr>"
      have step: "write_entries pvs self incdirs efh sfh (f # fs) w =
                  write_entries pvs self incdirs efh sfh fs ?w"
        unfolding write_entries_step [OF True] using None by (simp add: fwrite_def)
      show ?thesis
        unfolding step by (subst Cons) simp
    qed
  qed
qed

lemma write_entries_fst:
  "fst (write_entries pvs self incdirs efh sfh xs w) =
   (case first_error
           (map (\<lambda>f. write_error w (if belongs_to_dut f then efh else sfh)
                       (entry_line pvs self incdirs f))
              (filter eligible xs)) of
      None \<Rightarrow> Inr () | Some e \<Rightarrow> Inl e)"
proof (induction xs arbitrary: w)
  case Nil
  then show ?case by simp
next
  case (Cons f fs)
  show ?case
  proof (cases "eligible f")
    case False
    show ?thesis
      unfolding write_entries_skip [OF False] using False by (simp add: Cons)
  next
    case True
    let ?h = "if belongs_to_dut f then efh else sfh"
    show ?thesis
    proof (cases "write_error w ?h (entry_line pvs self incdirs f)")
      case (Some e)
      then show ?thesis
        unfolding write_entries_step [OF True] using True by (simp add: fwrite_def)
    next
      case None
      let ?w = "w\<lparr>files := (files w)(?h \<mapsto>
                  (case files w ?h of None \<Rightarrow> entry_line pvs self incdirs f
                   | Some c \<Rightarrow> c @ entry_line pvs self incdirs f))\<rparr>"
      have step: "write_entries pvs self incdirs efh sfh (f # fs) w =
                  write_entries pvs self incdirs efh sfh fs ?w"
        unfolding write_entries_step [OF True] using None by (simp add: fwrite_def)
      show ?thesis
        unfolding step using True None by (simp add: Cons)
    qed
  qed
qed

lemma write_entries_files:
  assumes "efh \<noteq> sfh" "files w efh = Some e" "files w sfh = Some s"
    and "fst (write_entries pvs self incdirs efh sfh xs w) = Inr ()"
  shows "files (snd (write_entries pvs self incdirs efh sfh xs w)) =
         (files w)(efh \<mapsto> e @ concat (map (entry_line pvs self incdirs) (emu_entries xs)),
                   sfh \<mapsto> s @ concat (map (entry_line pvs self incdirs) (sim_entries xs)))"
  using assms
proof (induction xs arbitrary: w e s)
  case Nil
  then show ?case by (auto simp: emu_entries_def sim_entries_def)
next
  case (Cons f fs)
  show ?case
  proof (cases "eligible f")
    case False
    from Cons.IH [OF Cons.prems(1-3)] Cons.prems(4) show ?thesis
      unfolding write_entries_skip [OF False] using False
      by (simp add: emu_entries_def sim_entries_def)
  next
    case True
    let ?h = "if belongs_to_dut f then efh else sfh"
    let ?l = "entry_line pvs self incdirs f"
    have ok: "write_error w ?h ?l = None"
      using Cons.prems(4) unfolding write_entries_step [OF True]
      by (cases "write_error w ?h ?l") (simp_all add: fwrite_def)
    let ?w = "w\<lparr>files := (files w)(?h \<mapsto> (case files w ?h of None \<Rightarrow> ?l | Some c \<Rightarrow> c @ ?l))\<rparr>"
    have step: "write_entries pvs self incdirs efh sfh (f # fs) w =
                write_entries pvs self incdirs efh sfh fs ?w"
      unfolding write_entries_step [OF True] using ok by (simp add: fwrite_def)
    show ?thesis
    proof (cases "belongs_to_dut f")
      case dut: True
      have "files ?w efh = Some (e @ ?l)" "files ?w sfh = Some s"
        using Cons.prems dut by simp_all
      from Cons.IH [OF Cons.prems(1) this] Cons.prems(4) show ?thesis
        unfolding step using True dut Cons.prems(1-3)
        by (auto simp: emu_entries_def sim_entries_def)
    next
      case nodut: False
      have "files ?w efh = Some e" "files ?w sfh = Some (s @ ?l)"
        using Cons.prems nodut by simp_all
      from Cons.IH [OF Cons.prems(1) this] Cons.prems(4) show ?thesis
        unfolding step using True nodut Cons.prems(1-3)
        by (auto simp: emu_entries_def sim_entries_def)
    qed
  qed
qed

subsection \<open>The method\<close>

lemma configure_main_stages:
  assumes w0: "snd (dump pvs self [] w) = w0"
    and w2: "w2 = w0\<lparr>open_calls := open_calls w0 @ [emu_filelist_file self, sim_filelist_file self],
                    files := (files w0)(emu_filelist_file self \<mapsto> [], sim_filelist_file self \<mapsto> []),
                    handles := sim_filelist_file self # emu_filelist_file self # handles w0\<rparr>"
    and w3: "w3 = snd (write_entries pvs self incdirs (emu_filelist_file self)
                        (sim_filelist_file self) src_files w2)"
  shows "configure_main pvs self (src_files, incdirs) w =
    (case fst (dump pvs self [] w) of
       Inl e \<Rightarrow> (Inl e, w0)
     | Inr u \<Rightarrow>
        (case open_error w0 (emu_filelist_file self) of
           Some e \<Rightarrow> (Inl e, w0\<lparr>open_calls := open_calls w0 @ [emu_filelist_file self]\<rparr>)
         | None \<Rightarrow>
            (case open_error w0 (sim_filelist_file self) of
               Some e \<Rightarrow>
                 (Inl e,
                  w0\<lparr>open_calls :=
                        open_calls w0 @ [emu_filelist_file self, sim_filelist_file self],
                      files := (files w0)(emu_filelist_file self \<mapsto> []),
                      handles := emu_filelist_file self # handles w0\<rparr>)
             | None \<Rightarrow>
                (case fst (write_entries pvs self incdirs (emu_filelist_file self)
                             (sim_filelist_file self) src_files w2) of
                   Inl e \<Rightarrow> (Inl e, w3)
                 | Inr u \<Rightarrow>
                    (case close_error w3 (emu_filelist_file self) of
                       Some e \<Rightarrow>
                         (Inl e, w3\<lparr>handles := remove1 (emu_filelist_file self) (handles w3)\<rparr>)
                     | None \<Rightarrow>
                        (case close_error w3 (sim_filelist_file self) of
                           Some e \<Rightarrow>
                             (Inl e,
                              w3\<lparr>handles := remove1 (sim_filelist_file self)
                                    (remove1 (emu_filelist_file self) (handles w3))\<rparr>)
                         | None \<Rightarrow>
                             (Inr (),
                              w3\<lparr>handles := remove1 (sim_filelist_file self)
                                    (remove1 (emu_filelist_file self) (handles w3))\<rparr>)))))))"
proof -
  let ?e = "emu_filelist_file self" and ?s = "sim_filelist_file self"
  note defs = configure_main_def py_open_w_def fclose_def Let_def
    emu_filelist_file_def [symmetric] sim_filelist_file_def [symmetric]
  obtain r0 where d: "dump pvs self [] w = (r0, w0)"
    using w0 by (cases "dump pvs self [] w") simp
  show ?thesis
  proof (cases r0)
    case (Inl e)
    with d show ?thesis by (simp add: defs)
  next
    case r0: (Inr u)
    show ?thesis
    proof (cases "open_error w0 ?e")
      case (Some e)
      with d r0 show ?thesis by (simp add: defs)
    next
      case oe: None
      show ?thesis
      proof (cases "open_error w0 ?s")
        case (Some e)
        with d r0 oe show ?thesis by (simp add: defs)
      next
        case os: None
        obtain r3 where l: "write_entries pvs self incdirs ?e ?s src_files w2 = (r3, w3)"
          using w3 by (cases "write_entries pvs self incdirs ?e ?s src_files w2") simp
        have l': "write_entries pvs self incdirs ?e ?s src_files
                   (w0\<lparr>open_calls := open_calls w0 @ [?e, ?s],
                       files := (files w0)(?e \<mapsto> [], ?s \<mapsto> []),
                       handles := ?s # ?e # handles w0\<rparr>) = (r3, w3)"
          using l by (simp add: w2)
        show ?thesis
        proof (cases r3)
          case (Inl e)
          with d r0 oe os l l' show ?thesis by (simp add: defs)
        next
          case r3: (Inr u3)
          show ?thesis
          proof (cases "close_error w3 ?e")
            case (Some e)
            with d r0 oe os l l' r3 show ?thesis by (simp add: defs)
          next
            case ce: None
            show ?thesis
            proof (cases "close_error w3 ?s")
              case (Some e)
              with d r0 oe os l l' r3 ce show ?thesis by (simp add: defs)
            next
              case None
              with d r0 oe os l l' r3 ce show ?thesis by (simp add: defs)
            qed
          qed
        qed
      qed
    qed
  qed
qed


lemma write_entries_fields:
  "handles (snd (write_entries pvs self incdirs efh sfh xs w)) = handles w"
  "open_calls (snd (write_entries pvs self incdirs efh sfh xs w)) = open_calls w"
  "stdout (snd (write_entries pvs self incdirs efh sfh xs w)) = stdout w"
  "print_error (snd (write_entries pvs self incdirs efh sfh xs w)) = print_error w"
  "open_error (snd (write_entries pvs self incdirs efh sfh xs w)) = open_error w"
  "write_error (snd (write_entries pvs self incdirs efh sfh xs w)) = write_error w"
  "close_error (snd (write_entries pvs self incdirs efh sfh xs w)) = close_error w"
  by (subst write_entries_world, simp)+

lemma configure_main_fst:
  "fst (configure_main pvs self (src_files, incdirs) w) =
   (case first_error (io_errors pvs self (src_files, incdirs) w) of
      None \<Rightarrow> Inr () | Some e \<Rightarrow> Inl e)"
proof -
  obtain out where w0: "snd (dump pvs self [] w) = w\<lparr>stdout := out\<rparr>"
    using dump_world by blast
  show ?thesis
    unfolding configure_main_stages [OF w0 refl refl]
    by (simp add: dump_fst write_entries_fst write_entries_fields io_errors_def
        first_error_append split: option.splits sum.splits)
qed

lemma configure_main_no_error:
  assumes "\<forall>s. print_error w s = None"
    and "\<forall>p. open_error w p = None"
    and "\<forall>p s. write_error w p s = None"
    and "\<forall>p. close_error w p = None"
  shows "fst (configure_main pvs self (src_files, incdirs) w) = Inr ()"
proof -
  have "first_error (io_errors pvs self (src_files, incdirs) w) = None"
    using assms by (intro first_error_all_None) (auto simp: io_errors_def)
  then show ?thesis by (simp add: configure_main_fst)
qed

lemma configure_main_result:
  assumes "fst (configure_main pvs self (src_files, incdirs) w) = Inr ()"
  shows "files (snd (configure_main pvs self (src_files, incdirs) w)) =
           (files w)
             (emu_filelist_file self \<mapsto>
                concat (map (entry_line pvs self incdirs) (emu_entries src_files)),
              sim_filelist_file self \<mapsto>
                concat (map (entry_line pvs self incdirs) (sim_entries src_files)))"
    and "handles (snd (configure_main pvs self (src_files, incdirs) w)) = handles w"
    and "open_calls (snd (configure_main pvs self (src_files, incdirs) w)) =
           open_calls w @ [emu_filelist_file self, sim_filelist_file self]"
    and "print_error (snd (configure_main pvs self (src_files, incdirs) w)) = print_error w"
    and "open_error (snd (configure_main pvs self (src_files, incdirs) w)) = open_error w"
    and "write_error (snd (configure_main pvs self (src_files, incdirs) w)) = write_error w"
    and "close_error (snd (configure_main pvs self (src_files, incdirs) w)) = close_error w"
proof -
  let ?e = "emu_filelist_file self" and ?s = "sim_filelist_file self"
  have ne: "?e \<noteq> ?s" by (rule filelist_files_distinct)
  obtain out where w0: "snd (dump pvs self [] w) = w\<lparr>stdout := out\<rparr>"
    using dump_world by blast
  let ?w0 = "w\<lparr>stdout := out\<rparr>"
  let ?w2 = "?w0\<lparr>open_calls := open_calls ?w0 @ [?e, ?s],
                 files := (files ?w0)(?e \<mapsto> [], ?s \<mapsto> []),
                 handles := ?s # ?e # handles ?w0\<rparr>"
  let ?L = "write_entries pvs self incdirs ?e ?s src_files ?w2"
  note st = configure_main_stages [OF w0 refl refl, where incdirs = incdirs and src_files = src_files]
  have ok: "fst ?L = Inr ()"
    using assms unfolding st by (simp split: sum.splits option.splits)
  have run: "configure_main pvs self (src_files, incdirs) w =
             (Inr (), (snd ?L)\<lparr>handles := remove1 ?s (remove1 ?e (handles (snd ?L)))\<rparr>)"
    using assms unfolding st by (simp split: sum.splits option.splits)
  have f2: "files ?w2 ?e = Some []" "files ?w2 ?s = Some []"
    using ne by simp_all
  have fl: "files (snd ?L) =
            (files w)(?e \<mapsto> concat (map (entry_line pvs self incdirs) (emu_entries src_files)),
                      ?s \<mapsto> concat (map (entry_line pvs self incdirs) (sim_entries src_files)))"
  proof -
    have "files (snd ?L) =
          (files ?w2)
            (?e \<mapsto> [] @ concat (map (entry_line pvs self incdirs) (emu_entries src_files)),
             ?s \<mapsto> [] @ concat (map (entry_line pvs self incdirs) (sim_entries src_files)))"
      by (rule write_entries_files [OF ne f2 ok])
    also have "\<dots> =
          (files w)
            (?e \<mapsto> concat (map (entry_line pvs self incdirs) (emu_entries src_files)),
             ?s \<mapsto> concat (map (entry_line pvs self incdirs) (sim_entries src_files)))"
      using ne by (auto simp: fun_eq_iff)
    finally show ?thesis .
  qed
  show "files (snd (configure_main pvs self (src_files, incdirs) w)) =
           (files w)
             (?e \<mapsto> concat (map (entry_line pvs self incdirs) (emu_entries src_files)),
              ?s \<mapsto> concat (map (entry_line pvs self incdirs) (sim_entries src_files)))"
    using fl by (simp add: run)
  show "handles (snd (configure_main pvs self (src_files, incdirs) w)) = handles w"
    using ne by (simp add: run write_entries_fields)
  show "open_calls (snd (configure_main pvs self (src_files, incdirs) w)) =
           open_calls w @ [?e, ?s]"
    by (simp add: run write_entries_fields)
  show "print_error (snd (configure_main pvs self (src_files, incdirs) w)) = print_error w"
    and "open_error (snd (configure_main pvs self (src_files, incdirs) w)) = open_error w"
    and "write_error (snd (configure_main pvs self (src_files, incdirs) w)) = write_error w"
    and "close_error (snd (configure_main pvs self (src_files, incdirs) w)) = close_error w"
    by (simp_all add: run write_entries_fields)
qed

lemma configure_main_emu_error:
  assumes "fst (dump pvs self [] w) = Inr ()"
    and "open_error w (emu_filelist_file self) = Some e"
  shows "fst (configure_main pvs self (src_files, incdirs) w) = Inl e"
    and "open_calls (snd (configure_main pvs self (src_files, incdirs) w)) =
           open_calls w @ [emu_filelist_file self]"
    and "files (snd (configure_main pvs self (src_files, incdirs) w)) = files w"
    and "handles (snd (configure_main pvs self (src_files, incdirs) w)) = handles w"
proof -
  obtain out where w0: "snd (dump pvs self [] w) = w\<lparr>stdout := out\<rparr>"
    using dump_world by blast
  note st = configure_main_stages [OF w0 refl refl, where incdirs = incdirs and src_files = src_files]
  show "fst (configure_main pvs self (src_files, incdirs) w) = Inl e"
    and "open_calls (snd (configure_main pvs self (src_files, incdirs) w)) =
           open_calls w @ [emu_filelist_file self]"
    and "files (snd (configure_main pvs self (src_files, incdirs) w)) = files w"
    and "handles (snd (configure_main pvs self (src_files, incdirs) w)) = handles w"
    using assms unfolding st by simp_all
qed

lemma configure_main_sim_error:
  assumes "fst (dump pvs self [] w) = Inr ()"
    and "open_error w (emu_filelist_file self) = None"
    and "open_error w (sim_filelist_file self) = Some e"
  shows "fst (configure_main pvs self (src_files, incdirs) w) = Inl e"
    and "open_calls (snd (configure_main pvs self (src_files, incdirs) w)) =
           open_calls w @ [emu_filelist_file self, sim_filelist_file self]"
    and "files (snd (configure_main pvs self (src_files, incdirs) w)) =
           (files w)(emu_filelist_file self \<mapsto> [])"
    and "handles (snd (configure_main pvs self (src_files, incdirs) w)) =
           emu_filelist_file self # handles w"
proof -
  obtain out where w0: "snd (dump pvs self [] w) = w\<lparr>stdout := out\<rparr>"
    using dump_world by blast
  note st = configure_main_stages [OF w0 refl refl, where incdirs = incdirs and src_files = src_files]
  show "fst (configure_main pvs self (src_files, incdirs) w) = Inl e"
    and "open_calls (snd (configure_main pvs self (src_files, incdirs) w)) =
           open_calls w @ [emu_filelist_file self, sim_filelist_file self]"
    and "files (snd (configure_main pvs self (src_files, incdirs) w)) =
           (files w)(emu_filelist_file self \<mapsto> [])"
    and "handles (snd (configure_main pvs self (src_files, incdirs) w)) =
           emu_filelist_file self # handles w"
    using assms unfolding st by simp_all
qed

lemma configure_main_open_calls:
  "open_calls (snd (configure_main pvs self (src_files, incdirs) w)) = open_calls w \<or>
   open_calls (snd (configure_main pvs self (src_files, incdirs) w)) =
     open_calls w @ [emu_filelist_file self] \<or>
   open_calls (snd (configure_main pvs self (src_files, incdirs) w)) =
     open_calls w @ [emu_filelist_file self, sim_filelist_file self]"
proof -
  obtain out where w0: "snd (dump pvs self [] w) = w\<lparr>stdout := out\<rparr>"
    using dump_world by blast
  show ?thesis
    unfolding configure_main_stages [OF w0 refl refl]
    by (simp add: write_entries_fields split: option.splits sum.splits)
qed

lemma configure_main_cong:
  assumes "\<And>efh sfh w. write_entries pvs self incdirs efh sfh xs w =
                         write_entries pvs self incdirs efh sfh ys w"
  shows "configure_main pvs self (xs, incdirs) w = configure_main pvs self (ys, incdirs) w"
  by (simp add: configure_main_def Let_def assms split: prod.splits sum.splits)

lemma collapse_Inr: "fst p = Inr () \<Longrightarrow> p = (Inr (), snd p)"
  by (cases p) simp

lemma emu_entries_append: "emu_entries (xs @ ys) = emu_entries xs @ emu_entries ys"
  by (simp add: emu_entries_def)

lemma sim_entries_append: "sim_entries (xs @ ys) = sim_entries xs @ sim_entries ys"
  by (simp add: sim_entries_def)

lemma entries_partition:
  "length (emu_entries xs) + length (sim_entries xs) = length (filter eligible xs)"
  by (induction xs) (auto simp: emu_entries_def sim_entries_def)

lemma entries_count:
  "count_list (emu_entries xs) f + count_list (sim_entries xs) f =
   (if eligible f then count_list xs f else 0)"
  by (induction xs) (auto simp: emu_entries_def sim_entries_def)

lemma entries_disjoint: "set (emu_entries xs) \<inter> set (sim_entries xs) = {}"
  by (auto simp: emu_entries_def sim_entries_def)

lemma line_count_entries:
  assumes "\<forall>f\<in>set xs. CHR 0x0A \<notin> set (str_join '' '' (compose_args pvs self incdirs f))"
  shows "line_count (concat (map (entry_line pvs self incdirs) xs)) = length xs"
  using assms
  by (induction xs) (simp_all add: line_count_def entry_line_def newline_def)

lemma configure_main_files:
  assumes "configure_main pvs self (src_files, incdirs) w = (Inr u, w')"
  shows "files w' =
         (files w)
           (emu_filelist_file self \<mapsto>
              concat (map (entry_line pvs self incdirs) (emu_entries src_files)),
            sim_filelist_file self \<mapsto>
              concat (map (entry_line pvs self incdirs) (sim_entries src_files)))"
proof -
  have "fst (configure_main pvs self (src_files, incdirs) w) = Inr ()"
    and "w' = snd (configure_main pvs self (src_files, incdirs) w)"
    using assms by simp_all
  then show ?thesis by (simp add: configure_main_result(1))
qed

lemma single_entry_file:
  assumes "eligible f"
    and "fst (configure_main pvs self ([f], incdirs) w) = Inr ()"
  shows "files (snd (configure_main pvs self ([f], incdirs) w))
           (if belongs_to_dut f then emu_filelist_file self else sim_filelist_file self) =
         Some (entry_line pvs self incdirs f)"
  using assms(1) filelist_files_distinct [of self]
  by (simp add: configure_main_result(1) [OF assms(2)] emu_entries_def sim_entries_def)

lemma first_error_map_None: "first_error (map (\<lambda>x. None) xs @ ys) = first_error ys"
  by (induction xs) simp_all

lemmas example_defs =
  example_fileset_def example_self_def example_dut_def example_tb_def example_inc_def
  example_world_def

lemma example_paths:
  "emu_filelist_file example_self = ''/w/top.emu.f''"
  "sim_filelist_file example_self = ''/w/top.sim.f''"
  by (simp_all add: emu_filelist_file_def sim_filelist_file_def example_self_def os_path_join_def)

lemma example_flags:
  "eligible example_dut" "belongs_to_dut example_dut"
  "eligible example_tb" "\<not> belongs_to_dut example_tb"
  "\<not> eligible example_inc"
  "eligible example_other" "\<not> belongs_to_dut example_other"
  by (simp_all add: eligible_def belongs_to_dut_def example_dut_def example_tb_def
      example_inc_def example_other_def)

lemma example_lines:
  "str_join '' '' (compose_args (\<lambda>s. s) example_self [''/inc''] example_dut) =
     ''-sv -lib worklib +define+FOO=1 +incdir+/inc dut.sv''"
  "str_join '' '' (compose_args (\<lambda>s. s) example_self [''/inc''] example_tb) =
     ''+define+FOO=1 +incdir+/inc tb.v''"
  by (simp_all add: compose_args_def example_self_def example_dut_def example_tb_def)

lemma example_world_run:
  "fst (configure_main pvs self (xs, incdirs) example_world) = Inr ()"
  by (rule configure_main_no_error) (simp_all add: example_world_def)

lemma example_stale_run:
  "fst (configure_main pvs self (xs, incdirs) example_stale_world) = Inr ()"
  by (rule configure_main_no_error) (simp_all add: example_stale_world_def)

lemma io_errors_cong:
  assumes "print_error wa = print_error wb" "open_error wa = open_error wb"
    and "write_error wa = write_error wb" "close_error wa = close_error wb"
  shows "io_errors pvs self fileset wa = io_errors pvs self fileset wb"
  by (simp add: io_errors_def assms)

lemma first_error_map_Some:
  "xs \<noteq> [] \<Longrightarrow> first_error (map (\<lambda>x. Some e) xs @ ys) = Some e"
  by (cases xs) simp_all

lemma dump_texts_not_Nil: "dump_texts pvs self I \<noteq> []"
  by (simp add: dump_texts_def)

lemma dump_no_error: "\<forall>s. print_error w s = None \<Longrightarrow> fst (dump pvs self I w) = Inr ()"
  by (simp add: dump_fst first_error_all_None)

lemma example_dumps:
  "fst (dump pvs self I example_stale_world) = Inr ()"
  "fst (dump pvs self I example_emu_denied) = Inr ()"
  "fst (dump pvs self I example_sim_denied) = Inr ()"
  "fst (dump pvs self I example_disk_full) = Inr ()"
  "fst (dump pvs self I example_close_fails) = Inr ()"
  by (rule dump_no_error,
      simp add: example_stale_world_def example_emu_denied_def example_sim_denied_def
        example_disk_full_def example_close_fails_def)+

lemma example_io_errors:
  "first_error (io_errors (\<lambda>s. s) example_self example_fileset example_disk_full) =
     Some (OSError 28)"
  "first_error (io_errors (\<lambda>s. s) example_self example_fileset example_close_fails) =
     Some (OSError 5)"
  "first_error (io_errors (\<lambda>s. s) example_self example_fileset example_stdout_closed) =
     Some BrokenPipeError"
  by (simp_all add: io_errors_def example_disk_full_def example_close_fails_def
      example_stdout_closed_def example_stale_world_def first_error_map_None
      first_error_map_Some dump_texts_not_Nil example_paths example_fileset_def
      example_flags)

section \<open>The claims\<close>

text \<open>
  C1. After a successful run the emulation file holds exactly the lines of the eligible
  descriptors that belong to the device under test and the simulation file exactly the
  lines of the other eligible descriptors, each in input order. Every eligible descriptor
  is in exactly one of the two selections, never in both and never in none, so the two
  line counts add up to the number of eligible descriptors. A line is the text written by
  one call of \<open>write\<close>; when no line contains a newline character of its own, the
  number of newline characters of the two files is that number too.
\<close>

theorem eligible_file_in_exactly_one_filelist:
  assumes "configure_main pvs self (src_files, incdirs) w = (Inr (), w')"
  shows "files w' (emu_filelist_file self) =
           Some (concat (map (entry_line pvs self incdirs) (emu_entries src_files))) \<and>
         files w' (sim_filelist_file self) =
           Some (concat (map (entry_line pvs self incdirs) (sim_entries src_files))) \<and>
         length (emu_entries src_files) + length (sim_entries src_files) =
           length (filter eligible src_files) \<and>
         (\<forall>f. count_list (emu_entries src_files) f + count_list (sim_entries src_files) f =
              (if eligible f then count_list src_files f else 0)) \<and>
         (\<forall>f. \<not> (f \<in> set (emu_entries src_files) \<and> f \<in> set (sim_entries src_files))) \<and>
         ((\<forall>f\<in>set src_files. eligible f \<longrightarrow>
              CHR 0x0A \<notin> set (str_join '' '' (compose_args pvs self incdirs f))) \<longrightarrow>
          line_count (concat (map (entry_line pvs self incdirs) (emu_entries src_files))) +
          line_count (concat (map (entry_line pvs self incdirs) (sim_entries src_files))) =
            length (filter eligible src_files))"
proof (intro conjI)
  note fs = configure_main_files [OF assms]
  show "files w' (emu_filelist_file self) =
           Some (concat (map (entry_line pvs self incdirs) (emu_entries src_files)))"
    using filelist_files_distinct [of self] by (simp add: fs)
  show "files w' (sim_filelist_file self) =
           Some (concat (map (entry_line pvs self incdirs) (sim_entries src_files)))"
    by (simp add: fs)
  show "length (emu_entries src_files) + length (sim_entries src_files) =
           length (filter eligible src_files)"
    by (rule entries_partition)
  show "\<forall>f. count_list (emu_entries src_files) f + count_list (sim_entries src_files) f =
              (if eligible f then count_list src_files f else 0)"
    using entries_count by blast
  show "\<forall>f. \<not> (f \<in> set (emu_entries src_files) \<and> f \<in> set (sim_entries src_files))"
    using entries_disjoint [of src_files] by blast
  show "(\<forall>f\<in>set src_files. eligible f \<longrightarrow>
              CHR 0x0A \<notin> set (str_join '' '' (compose_args pvs self incdirs f))) \<longrightarrow>
          line_count (concat (map (entry_line pvs self incdirs) (emu_entries src_files))) +
          line_count (concat (map (entry_line pvs self incdirs) (sim_entries src_files))) =
            length (filter eligible src_files)"
  proof
    assume nl: "\<forall>f\<in>set src_files. eligible f \<longrightarrow>
              CHR 0x0A \<notin> set (str_join '' '' (compose_args pvs self incdirs f))"
    have "line_count (concat (map (entry_line pvs self incdirs) (emu_entries src_files))) =
          length (emu_entries src_files)"
      using nl by (intro line_count_entries) (simp add: emu_entries_def)
    moreover
    have "line_count (concat (map (entry_line pvs self incdirs) (sim_entries src_files))) =
          length (sim_entries src_files)"
      using nl by (intro line_count_entries) (simp add: sim_entries_def)
    ultimately show "line_count (concat (map (entry_line pvs self incdirs) (emu_entries src_files))) +
          line_count (concat (map (entry_line pvs self incdirs) (sim_entries src_files))) =
            length (filter eligible src_files)"
      by (simp add: entries_partition)
  qed
qed

theorem eligible_file_in_exactly_one_filelist_witness:
  "fst (configure_main (\<lambda>s. s) example_self example_fileset example_world) = Inr () \<and>
   files (snd (configure_main (\<lambda>s. s) example_self example_fileset example_world))
     ''/w/top.emu.f'' =
     Some (''-sv -lib worklib +define+FOO=1 +incdir+/inc dut.sv'' @ [CHR 0x0A]) \<and>
   files (snd (configure_main (\<lambda>s. s) example_self example_fileset example_world))
     ''/w/top.sim.f'' =
     Some (''+define+FOO=1 +incdir+/inc tb.v'' @ [CHR 0x0A]) \<and>
   length (filter eligible (fst example_fileset)) = 2 \<and>
   length (emu_entries (fst example_fileset)) = 1 \<and>
   length (sim_entries (fst example_fileset)) = 1"
proof -
  have ok: "fst (configure_main (\<lambda>s. s) example_self example_fileset example_world) = Inr ()"
    unfolding example_fileset_def by (rule example_world_run)
  have run: "configure_main (\<lambda>s. s) example_self (fst example_fileset, snd example_fileset)
               example_world =
             (Inr (), snd (configure_main (\<lambda>s. s) example_self example_fileset example_world))"
    using collapse_Inr [OF ok] by simp
  have nl: "\<forall>f\<in>set (fst example_fileset). eligible f \<longrightarrow>
              CHR 0x0A \<notin> set (str_join '' '' (compose_args (\<lambda>s. s) example_self
                (snd example_fileset) f))"
    by (simp add: example_defs compose_args_def eligible_def)
  from eligible_file_in_exactly_one_filelist [OF run] nl ok
  show ?thesis
    by (simp add: example_paths)
      (simp add: example_fileset_def emu_entries_def sim_entries_def example_flags
        entry_line_def example_lines newline_def)
qed

text \<open>
  C2. A descriptor whose file type is neither \<open>verilogSource\<close> nor
  \<open>systemVerilogSource\<close>, or which carries the attribute \<open>is_include_file\<close>,
  contributes nothing: wherever it stands in the input list, the run returns the same
  result and leaves the same world, both files included, as the run on the list without
  it. Its other attributes, \<open>partof\<close> among them, play no part.
\<close>

theorem ineligible_file_contributes_nothing:
  assumes "\<not> (file_type f = ''verilogSource'' \<or> file_type f = ''systemVerilogSource'') \<or>
           is_include_file f \<noteq> None"
  shows "configure_main pvs self (xs @ f # ys, incdirs) w =
         configure_main pvs self (xs @ ys, incdirs) w"
proof -
  from assms have "\<not> eligible f" by (auto simp: eligible_def)
  then show ?thesis
    by (intro configure_main_cong write_entries_drop)
qed

theorem ineligible_file_contributes_nothing_witness:
  "is_include_file example_inc \<noteq> None \<and> partof example_inc = Some (PyStr ''dut'') \<and>
   configure_main (\<lambda>s. s) example_self ([example_dut] @ example_inc # [example_tb], [''/inc''])
     example_world =
   configure_main (\<lambda>s. s) example_self ([example_dut] @ [example_tb], [''/inc''])
     example_world"
proof -
  have h: "\<not> (file_type example_inc = ''verilogSource'' \<or>
               file_type example_inc = ''systemVerilogSource'') \<or>
           is_include_file example_inc \<noteq> None"
    by (simp add: example_inc_def)
  from ineligible_file_contributes_nothing
         [where f = example_inc and xs = "[example_dut]" and ys = "[example_tb]", OF h]
  show ?thesis
    by (simp add: example_inc_def)
qed

text \<open>
  C8. The skip of include files looks only at the presence of the attribute
  \<open>is_include_file\<close>: a descriptor that carries it with any value \<open>v\<close> at all
  (\<open>False\<close>, \<open>None\<close>, the empty string, ...) writes no line to either file, wherever
  it stands in the input list.
\<close>

theorem include_file_attribute_presence_skips:
  "configure_main pvs self (xs @ f\<lparr>is_include_file := Some v\<rparr> # ys, incdirs) w =
   configure_main pvs self (xs @ ys, incdirs) w"
  by (intro configure_main_cong write_entries_drop) (simp add: eligible_def)

theorem include_file_attribute_presence_skips_witness:
  "is_include_file (example_tb\<lparr>is_include_file := Some (PyBool False)\<rparr>) = Some (PyBool False) \<and>
   configure_main (\<lambda>s. s) example_self
     ([example_dut] @ example_tb\<lparr>is_include_file := Some (PyBool False)\<rparr> # [example_tb],
      [''/inc'']) example_world =
   configure_main (\<lambda>s. s) example_self ([example_dut] @ [example_tb], [''/inc''])
     example_world"
  using include_file_attribute_presence_skips
          [where pvs = "\<lambda>s. s" and self = example_self and xs = "[example_dut]"
             and f = example_tb and v = "PyBool False" and ys = "[example_tb]"
             and incdirs = "[''/inc'']" and w = example_world]
  by simp

text \<open>
  C5. Extending the input list by an eligible descriptor appends the line of that
  descriptor, followed by a newline, to the emulation file when the descriptor belongs to
  the device under test, and to the simulation file otherwise; the other file keeps the
  contents it has without the descriptor. Both runs are successful ones.
\<close>

theorem eligible_line_routed_by_dut_flag:
  assumes "eligible f"
    and "configure_main pvs self (xs, incdirs) w = (Inr (), w1)"
    and "configure_main pvs self (xs @ [f], incdirs) w = (Inr (), w2)"
  shows "(if belongs_to_dut f
          then files w2 (emu_filelist_file self) =
                 map_option (\<lambda>c. c @ str_join '' '' (compose_args pvs self incdirs f) @ newline)
                   (files w1 (emu_filelist_file self)) \<and>
               files w2 (sim_filelist_file self) = files w1 (sim_filelist_file self)
          else files w2 (sim_filelist_file self) =
                 map_option (\<lambda>c. c @ str_join '' '' (compose_args pvs self incdirs f) @ newline)
                   (files w1 (sim_filelist_file self)) \<and>
               files w2 (emu_filelist_file self) = files w1 (emu_filelist_file self)) \<and>
         files w1 (emu_filelist_file self) \<noteq> None \<and>
         files w1 (sim_filelist_file self) \<noteq> None"
proof -
  note f1 = configure_main_files [OF assms(2)]
  note f2 = configure_main_files [OF assms(3)]
  note ne = filelist_files_distinct [of self]
  have e: "emu_entries [f] = (if belongs_to_dut f then [f] else [])"
    and s: "sim_entries [f] = (if belongs_to_dut f then [] else [f])"
    using assms(1) by (simp_all add: emu_entries_def sim_entries_def)
  show ?thesis
    using ne
    by (simp add: f1 f2 emu_entries_append sim_entries_append e s entry_line_def)
qed

theorem eligible_line_routed_by_dut_flag_witness:
  "eligible example_dut \<and> belongs_to_dut example_dut \<and>
   fst (configure_main (\<lambda>s. s) example_self ([example_tb], [''/inc'']) example_world) = Inr () \<and>
   fst (configure_main (\<lambda>s. s) example_self ([example_tb] @ [example_dut], [''/inc''])
          example_world) = Inr () \<and>
   files (snd (configure_main (\<lambda>s. s) example_self ([example_tb] @ [example_dut], [''/inc''])
                 example_world)) ''/w/top.emu.f'' =
     Some (''-sv -lib worklib +define+FOO=1 +incdir+/inc dut.sv'' @ newline) \<and>
   files (snd (configure_main (\<lambda>s. s) example_self ([example_tb] @ [example_dut], [''/inc''])
                 example_world)) ''/w/top.sim.f'' =
     Some (''+define+FOO=1 +incdir+/inc tb.v'' @ newline)"
proof -
  let ?run = "\<lambda>xs. configure_main (\<lambda>s. s) example_self (xs, [''/inc'']) example_world"
  have r1: "fst (?run [example_tb]) = Inr ()"
    and r2: "fst (?run ([example_tb] @ [example_dut])) = Inr ()"
    by (rule example_world_run)+
  have f1: "files (snd (?run [example_tb])) =
            [''/w/top.emu.f'' \<mapsto> [], ''/w/top.sim.f'' \<mapsto> ''+define+FOO=1 +incdir+/inc tb.v'' @ newline]"
    by (simp add: configure_main_result(1) [OF r1] example_paths emu_entries_def
        sim_entries_def example_flags entry_line_def example_lines)
      (simp add: example_world_def)
  from eligible_line_routed_by_dut_flag
         [OF example_flags(1) collapse_Inr [OF r1] collapse_Inr [OF r2]] r1 r2
  show ?thesis
    by (simp add: example_flags example_paths example_lines f1)
qed

text \<open>
  C3. The tokens of a line come in a fixed order: the flag \<open>-sv\<close> for a SystemVerilog
  file, the library binding when \<open>logical_name\<close> is a non-empty string, one define
  token per entry of \<open>vlogdefine\<close>, one parameter token per entry of \<open>vlogparam\<close>,
  one include token per include directory, the joined \<open>vlan_opts\<close> when there are any,
  and last the file name; each group follows the order of its input collection. The line
  written for an eligible descriptor is these tokens joined by single spaces, with a
  newline after it.
\<close>

theorem line_tokens_in_fixed_order:
  "compose_args pvs self incdirs f =
     (if file_type f = ''systemVerilogSource'' then [''-sv''] else []) @
     (case logical_name f of None \<Rightarrow> [] | Some l \<Rightarrow> if l \<noteq> [] then [''-lib '' @ l] else []) @
     map (\<lambda>(k, v). ''+define+'' @ k @ ''='' @ pvs v) (vlogdefine self) @
     map (\<lambda>(k, v). k @ ''='' @ pvs v) (vlogparam self) @
     map (\<lambda>d. ''+incdir+'' @ d) incdirs @
     (if opt_truthy (tool_options self ''vlan_opts'')
      then [str_join '' '' (opt_items (tool_options self ''vlan_opts''))] else []) @
     [name f] \<and>
   (eligible f \<longrightarrow> fst (configure_main pvs self ([f], incdirs) w) = Inr () \<longrightarrow>
    files (snd (configure_main pvs self ([f], incdirs) w))
      (if belongs_to_dut f then emu_filelist_file self else sim_filelist_file self) =
    Some (str_join '' ''
            ((if file_type f = ''systemVerilogSource'' then [''-sv''] else []) @
             (case logical_name f of
                None \<Rightarrow> [] | Some l \<Rightarrow> if l \<noteq> [] then [''-lib '' @ l] else []) @
             map (\<lambda>(k, v). ''+define+'' @ k @ ''='' @ pvs v) (vlogdefine self) @
             map (\<lambda>(k, v). k @ ''='' @ pvs v) (vlogparam self) @
             map (\<lambda>d. ''+incdir+'' @ d) incdirs @
             (if opt_truthy (tool_options self ''vlan_opts'')
              then [str_join '' '' (opt_items (tool_options self ''vlan_opts''))] else []) @
             [name f]) @ newline))"
  using single_entry_file [of f pvs self incdirs w]
  by (simp only: compose_args_closed [symmetric] entry_line_def) simp

theorem line_tokens_in_fixed_order_witness:
  "eligible example_dut \<and>
   fst (configure_main (\<lambda>s. s) example_full ([example_dut], [''/i2'', ''/i1'']) example_world) =
     Inr () \<and>
   compose_args (\<lambda>s. s) example_full [''/i2'', ''/i1''] example_dut =
     [''-sv'', ''-lib worklib'', ''+define+B=2'', ''+define+A=1'', ''P=3'', ''Q=x'',
      ''+incdir+/i2'', ''+incdir+/i1'', ''-a -b'', ''dut.sv''] \<and>
   files (snd (configure_main (\<lambda>s. s) example_full ([example_dut], [''/i2'', ''/i1''])
                 example_world)) ''/w/top.emu.f'' =
     Some (''-sv -lib worklib +define+B=2 +define+A=1 P=3 Q=x +incdir+/i2 +incdir+/i1 -a -b dut.sv''
           @ newline)"
proof -
  have ok: "fst (configure_main (\<lambda>s. s) example_full ([example_dut], [''/i2'', ''/i1''])
                  example_world) = Inr ()"
    by (rule example_world_run)
  have p: "emu_filelist_file example_full = ''/w/top.emu.f''"
    by (simp add: emu_filelist_file_def example_full_def os_path_join_def)
  from line_tokens_in_fixed_order
         [where pvs = "\<lambda>s. s" and self = example_full and incdirs = "[''/i2'', ''/i1'']"
            and f = example_dut and w = example_world]
       example_flags(1,2) ok p
  show ?thesis
    by (simp add: example_full_def example_dut_def)
qed

text \<open>
  C4 (amended). The token of the \<open>i\<close>-th entry \<open>(k, v)\<close> of \<open>vlogdefine\<close> stands
  right after the optional flag and library tokens, at the \<open>i\<close>-th place of its group,
  and is \<open>+define+k=V\<close> with \<open>V\<close> the formatted value. The equals sign is always
  there: when the value formats to the empty string the token is \<open>+define+k=\<close>.
\<close>

theorem define_token_keeps_equals_sign:
  assumes "i < length (vlogdefine self)"
    and "vlogdefine self ! i = (k, v)"
  shows "compose_args pvs self incdirs f !
           (length ((if file_type f = ''systemVerilogSource'' then [''-sv''] else []) @
                    (case logical_name f of
                       None \<Rightarrow> [] | Some l \<Rightarrow> if l \<noteq> [] then [''-lib '' @ l] else [])) + i) =
         ''+define+'' @ k @ ''='' @ pvs v \<and>
         (pvs v = [] \<longrightarrow>
          compose_args pvs self incdirs f !
            (length ((if file_type f = ''systemVerilogSource'' then [''-sv''] else []) @
                     (case logical_name f of
                        None \<Rightarrow> [] | Some l \<Rightarrow> if l \<noteq> [] then [''-lib '' @ l] else [])) + i) =
          ''+define+'' @ k @ ''='')"
proof -
  let ?lead = "(if file_type f = ''systemVerilogSource'' then [''-sv''] else []) @
               (case logical_name f of
                  None \<Rightarrow> [] | Some l \<Rightarrow> if l \<noteq> [] then [''-lib '' @ l] else [])"
  let ?defs = "map (\<lambda>(k, v). ''+define+'' @ k @ ''='' @ pvs v) (vlogdefine self)"
  obtain rest where "compose_args pvs self incdirs f = ?lead @ ?defs @ rest"
    by (simp add: compose_args_closed)
  then have "compose_args pvs self incdirs f ! (length ?lead + i) = (?defs @ rest) ! i"
    by (simp only: nth_append_length_plus)
  also have "\<dots> = ?defs ! i"
    using assms(1) by (simp add: nth_append)
  also have "\<dots> = ''+define+'' @ k @ ''='' @ pvs v"
    using assms by simp
  finally show ?thesis by simp
qed

theorem define_token_keeps_equals_sign_witness:
  "(0::nat) < length (vlogdefine example_empty_define) \<and>
   vlogdefine example_empty_define ! 0 = (''FOO'', []) \<and>
   compose_args (\<lambda>s. s) example_empty_define [''/inc''] example_dut ! 2 = ''+define+FOO=''"
proof -
  have h1: "(0::nat) < length (vlogdefine example_empty_define)"
    and h2: "vlogdefine example_empty_define ! 0 = (''FOO'', [])"
    by (simp_all add: example_empty_define_def)
  from define_token_keeps_equals_sign
         [OF h1 h2, where pvs = "\<lambda>s. s" and f = example_dut and incdirs = "[''/inc'']"]
       h1 h2
  show ?thesis
    by (simp add: example_dut_def numeral_2_eq_2)
qed

text \<open>
  C4 as stated fails: with the single define \<open>FOO\<close> whose value is the empty string,
  which formats to the empty string, the token is \<open>+define+FOO=\<close> and the bare token
  \<open>+define+FOO\<close> is not among the arguments.
\<close>

theorem define_token_empty_value_counterexample:
  "vlogdefine example_empty_define = [(''FOO'', [])] \<and>
   (\<lambda>s. s) ([] :: string) = [] \<and>
   compose_args (\<lambda>s. s) example_empty_define [] example_tb = [''+define+FOO='', ''tb.v''] \<and>
   ''+define+FOO'' \<notin> set (compose_args (\<lambda>s. s) example_empty_define [] example_tb) \<and>
   fst (configure_main (\<lambda>s. s) example_empty_define ([example_tb], []) example_world) = Inr () \<and>
   files (snd (configure_main (\<lambda>s. s) example_empty_define ([example_tb], []) example_world))
     ''/w/top.sim.f'' = Some (''+define+FOO= tb.v'' @ newline)"
proof -
  have a: "compose_args (\<lambda>s. s) example_empty_define [] example_tb =
           [''+define+FOO='', ''tb.v'']"
    by (simp add: compose_args_def example_empty_define_def example_tb_def)
  have p: "sim_filelist_file example_empty_define = ''/w/top.sim.f''"
    by (simp add: sim_filelist_file_def example_empty_define_def os_path_join_def)
  have ok: "fst (configure_main (\<lambda>s. s) example_empty_define ([example_tb], [])
                   example_world) = Inr ()"
    by (rule example_world_run)
  show ?thesis
    using single_entry_file [OF example_flags(3) ok] example_flags(4) ok
    by (simp add: a p entry_line_def) (simp add: example_empty_define_def)
qed

text \<open>
  C6. The bytes of the two files after a successful run depend on the inputs only, not on
  the world the run starts in: two successful runs on the same inputs leave the same
  emulation file and the same simulation file, whatever either file held before. Running
  again on the world a run has left succeeds and changes no file and no file object.
\<close>

theorem generation_deterministic:
  assumes "configure_main pvs self fileset w1 = (Inr (), w1')"
    and "configure_main pvs self fileset w2 = (Inr (), w2')"
  shows "files w1' (emu_filelist_file self) = files w2' (emu_filelist_file self) \<and>
         files w1' (sim_filelist_file self) = files w2' (sim_filelist_file self) \<and>
         fst (configure_main pvs self fileset w1') = Inr () \<and>
         files (snd (configure_main pvs self fileset w1')) = files w1' \<and>
         handles (snd (configure_main pvs self fileset w1')) = handles w1'"
proof -
  obtain src_files incdirs where fs: "fileset = (src_files, incdirs)"
    by (cases fileset)
  note ne = filelist_files_distinct [of self]
  have ok1: "fst (configure_main pvs self (src_files, incdirs) w1) = Inr ()"
    and w1': "w1' = snd (configure_main pvs self (src_files, incdirs) w1)"
    using assms(1) by (simp_all add: fs)
  note r1 = configure_main_result [OF ok1, folded w1']
  note f2 = configure_main_files [OF assms(2) [unfolded fs]]
  have same: "files w1' (emu_filelist_file self) = files w2' (emu_filelist_file self)"
             "files w1' (sim_filelist_file self) = files w2' (sim_filelist_file self)"
    using ne by (simp_all add: r1(1) f2)
  have "io_errors pvs self (src_files, incdirs) w1' = io_errors pvs self (src_files, incdirs) w1"
    by (rule io_errors_cong) (simp_all add: r1)
  then have ok: "fst (configure_main pvs self (src_files, incdirs) w1') = Inr ()"
    using ok1 by (simp add: configure_main_fst)
  note r = configure_main_result [OF ok]
  have again: "(files w1')
               (emu_filelist_file self \<mapsto>
                  concat (map (entry_line pvs self incdirs) (emu_entries src_files)),
                sim_filelist_file self \<mapsto>
                  concat (map (entry_line pvs self incdirs) (sim_entries src_files))) =
               files w1'"
    using ne by (auto simp: r1(1) fun_eq_iff)
  show ?thesis
    using same ok by (simp add: fs r(1,2) again)
qed

theorem generation_deterministic_witness:
  "fst (configure_main (\<lambda>s. s) example_self example_fileset example_world) = Inr () \<and>
   fst (configure_main (\<lambda>s. s) example_self example_fileset example_stale_world) = Inr () \<and>
   files example_world ''/w/top.emu.f'' \<noteq> files example_stale_world ''/w/top.emu.f'' \<and>
   files (snd (configure_main (\<lambda>s. s) example_self example_fileset example_world))
     ''/w/top.emu.f'' =
   files (snd (configure_main (\<lambda>s. s) example_self example_fileset example_stale_world))
     ''/w/top.emu.f'' \<and>
   files (snd (configure_main (\<lambda>s. s) example_self example_fileset example_world))
     ''/w/top.sim.f'' =
   files (snd (configure_main (\<lambda>s. s) example_self example_fileset example_stale_world))
     ''/w/top.sim.f''"
proof -
  have r1: "fst (configure_main (\<lambda>s. s) example_self example_fileset example_world) = Inr ()"
    and r2: "fst (configure_main (\<lambda>s. s) example_self example_fileset example_stale_world) =
             Inr ()"
    unfolding example_fileset_def by (rule example_world_run, rule example_stale_run)
  from generation_deterministic [OF collapse_Inr [OF r1] collapse_Inr [OF r2]] r1 r2
  show ?thesis
    by (simp add: example_paths example_world_def example_stale_world_def)
qed

text \<open>
  C7 (amended). A run fails exactly when one of its input and output operations raises:
  a print of \<open>_dump\<close>, one of the two calls of \<open>open\<close>, a \<open>write\<close> of a line or one
  of the two calls of \<open>close\<close>; the error of the first operation that raises is the
  result of the run, unchanged, and when none raises the run succeeds. In particular,
  once \<open>_dump\<close> has printed, an error of opening the emulation path ends the run after
  that one call of \<open>open\<close> with no file changed, and an error of opening the simulation
  path ends it after the two calls. No path is ever opened twice.
\<close>

theorem first_io_error_is_raised:
  "fst (configure_main pvs self (src_files, incdirs) w) =
     (case first_error (io_errors pvs self (src_files, incdirs) w) of
        None \<Rightarrow> Inr () | Some e \<Rightarrow> Inl e) \<and>
   (\<forall>e. fst (dump pvs self [] w) = Inr () \<and>
        open_error w (emu_filelist_file self) = Some e \<longrightarrow>
        fst (configure_main pvs self (src_files, incdirs) w) = Inl e \<and>
        open_calls (snd (configure_main pvs self (src_files, incdirs) w)) =
          open_calls w @ [emu_filelist_file self] \<and>
        files (snd (configure_main pvs self (src_files, incdirs) w)) = files w) \<and>
   (\<forall>e. fst (dump pvs self [] w) = Inr () \<and>
        open_error w (emu_filelist_file self) = None \<and>
        open_error w (sim_filelist_file self) = Some e \<longrightarrow>
        fst (configure_main pvs self (src_files, incdirs) w) = Inl e \<and>
        open_calls (snd (configure_main pvs self (src_files, incdirs) w)) =
          open_calls w @ [emu_filelist_file self, sim_filelist_file self]) \<and>
   (open_calls (snd (configure_main pvs self (src_files, incdirs) w)) = open_calls w \<or>
    open_calls (snd (configure_main pvs self (src_files, incdirs) w)) =
      open_calls w @ [emu_filelist_file self] \<or>
    open_calls (snd (configure_main pvs self (src_files, incdirs) w)) =
      open_calls w @ [emu_filelist_file self, sim_filelist_file self])"
proof (intro conjI allI impI)
  show "fst (configure_main pvs self (src_files, incdirs) w) =
     (case first_error (io_errors pvs self (src_files, incdirs) w) of
        None \<Rightarrow> Inr () | Some e \<Rightarrow> Inl e)"
    by (rule configure_main_fst)
next
  fix e
  assume h: "fst (dump pvs self [] w) = Inr () \<and>
             open_error w (emu_filelist_file self) = Some e"
  then have d: "fst (dump pvs self [] w) = Inr ()"
    and o: "open_error w (emu_filelist_file self) = Some e"
    by simp_all
  show "fst (configure_main pvs self (src_files, incdirs) w) = Inl e"
    by (rule configure_main_emu_error(1) [OF d o])
  show "open_calls (snd (configure_main pvs self (src_files, incdirs) w)) =
          open_calls w @ [emu_filelist_file self]"
    by (rule configure_main_emu_error(2) [OF d o])
  show "files (snd (configure_main pvs self (src_files, incdirs) w)) = files w"
    by (rule configure_main_emu_error(3) [OF d o])
next
  fix e
  assume h: "fst (dump pvs self [] w) = Inr () \<and>
             open_error w (emu_filelist_file self) = None \<and>
             open_error w (sim_filelist_file self) = Some e"
  then have d: "fst (dump pvs self [] w) = Inr ()"
    and oe: "open_error w (emu_filelist_file self) = None"
    and os: "open_error w (sim_filelist_file self) = Some e"
    by simp_all
  show "fst (configure_main pvs self (src_files, incdirs) w) = Inl e"
    by (rule configure_main_sim_error(1) [OF d oe os])
  show "open_calls (snd (configure_main pvs self (src_files, incdirs) w)) =
          open_calls w @ [emu_filelist_file self, sim_filelist_file self]"
    by (rule configure_main_sim_error(2) [OF d oe os])
next
  show "open_calls (snd (configure_main pvs self (src_files, incdirs) w)) = open_calls w \<or>
    open_calls (snd (configure_main pvs self (src_files, incdirs) w)) =
      open_calls w @ [emu_filelist_file self] \<or>
    open_calls (snd (configure_main pvs self (src_files, incdirs) w)) =
      open_calls w @ [emu_filelist_file self, sim_filelist_file self]"
    by (rule configure_main_open_calls)
qed

theorem first_io_error_is_raised_witness:
  "fst (dump (\<lambda>s. s) example_self [] example_emu_denied) = Inr () \<and>
   open_error example_emu_denied (emu_filelist_file example_self) = Some PermissionError \<and>
   fst (configure_main (\<lambda>s. s) example_self example_fileset example_emu_denied) =
     Inl PermissionError \<and>
   open_calls (snd (configure_main (\<lambda>s. s) example_self example_fileset example_emu_denied)) =
     [''/w/log'', ''/w/top.emu.f''] \<and>
   files (snd (configure_main (\<lambda>s. s) example_self example_fileset example_emu_denied))
     ''/w/top.emu.f'' = Some ''old line'' \<and>
   fst (dump (\<lambda>s. s) example_self [] example_sim_denied) = Inr () \<and>
   open_error example_sim_denied (emu_filelist_file example_self) = None \<and>
   open_error example_sim_denied (sim_filelist_file example_self) = Some IsADirectoryError \<and>
   fst (configure_main (\<lambda>s. s) example_self example_fileset example_sim_denied) =
     Inl IsADirectoryError \<and>
   open_calls (snd (configure_main (\<lambda>s. s) example_self example_fileset example_sim_denied)) =
     [''/w/log'', ''/w/top.emu.f'', ''/w/top.sim.f''] \<and>
   first_error (io_errors (\<lambda>s. s) example_self example_fileset example_stale_world) = None \<and>
   fst (configure_main (\<lambda>s. s) example_self example_fileset example_stale_world) = Inr () \<and>
   first_error (io_errors (\<lambda>s. s) example_self example_fileset example_close_fails) =
     Some (OSError 5) \<and>
   fst (configure_main (\<lambda>s. s) example_self example_fileset example_close_fails) =
     Inl (OSError 5)"
proof -
  have e: "open_error example_emu_denied (emu_filelist_file example_self) =
           Some PermissionError"
    and s: "open_error example_sim_denied (emu_filelist_file example_self) = None"
           "open_error example_sim_denied (sim_filelist_file example_self) =
            Some IsADirectoryError"
    by (simp_all add: example_paths example_emu_denied_def example_sim_denied_def)
  have n: "first_error (io_errors (\<lambda>s. s) example_self example_fileset example_stale_world) =
           None"
    by (rule first_error_all_None) (auto simp: io_errors_def example_stale_world_def)
  note inst = first_io_error_is_raised
    [where self = example_self and pvs = "\<lambda>s. s" and src_files = "fst example_fileset"
       and incdirs = "snd example_fileset"]
  let ?run = "\<lambda>w. configure_main (\<lambda>s. s) example_self example_fileset w"
  note a = inst [where w = example_emu_denied, THEN conjunct2, THEN conjunct1, rule_format,
                 OF conjI [OF example_dumps(2) e]]
  note b = inst [where w = example_sim_denied, THEN conjunct2, THEN conjunct2, THEN conjunct1,
                 rule_format, OF conjI [OF example_dumps(3) conjI [OF s]]]
  from inst [where w = example_stale_world] n
  have c: "fst (?run example_stale_world) = Inr ()"
    by simp
  from inst [where w = example_close_fails] example_io_errors(2)
  have d: "fst (?run example_close_fails) = Inl (OSError 5)"
    by simp
  have v: "open_calls example_emu_denied = [''/w/log'']"
          "open_calls example_sim_denied = [''/w/log'']"
          "files example_emu_denied ''/w/top.emu.f'' = Some ''old line''"
    by (simp_all add: example_emu_denied_def example_sim_denied_def example_stale_world_def)
  from a b c d e s n example_io_errors(2) show ?thesis
    by (simp add: example_dumps example_paths v)
qed

text \<open>
  C7 as stated fails: in a world where \<open>_dump\<close> prints and both paths can be opened,
  but writing to the simulation file raises (the disk is full), the run fails with that
  error, which is not an error of \<open>open\<close>. The same happens when standard output is closed.
\<close>

theorem failure_without_open_error_counterexample:
  "fst (dump (\<lambda>s. s) example_self [] example_disk_full) = Inr () \<and>
   open_error example_disk_full (emu_filelist_file example_self) = None \<and>
   open_error example_disk_full (sim_filelist_file example_self) = None \<and>
   fst (configure_main (\<lambda>s. s) example_self example_fileset example_disk_full) =
     Inl (OSError 28) \<and>
   open_error example_stdout_closed (emu_filelist_file example_self) = None \<and>
   open_error example_stdout_closed (sim_filelist_file example_self) = None \<and>
   fst (configure_main (\<lambda>s. s) example_self example_fileset example_stdout_closed) =
     Inl BrokenPipeError"
proof -
  have "fst (configure_main (\<lambda>s. s) example_self example_fileset example_disk_full) =
        Inl (OSError 28)"
    and "fst (configure_main (\<lambda>s. s) example_self example_fileset example_stdout_closed) =
        Inl BrokenPipeError"
    using example_io_errors(1,3)
    by (simp_all add: example_fileset_def configure_main_fst)
  then show ?thesis
    by (simp add: example_dumps)
      (simp add: example_disk_full_def example_stdout_closed_def example_stale_world_def)
qed

text \<open>
  C9. A line goes to the emulation file only when the descriptor has the attribute
  \<open>partof\<close> and its value is the string \<open>'dut'\<close>. For an eligible descriptor anywhere
  in the input list: with that value its line stands in the emulation file, between the
  lines of the descriptors before it and those after it, and the simulation file has no
  line for it; when the attribute is missing or has any other value it is the other way
  round.
\<close>

theorem emulation_file_requires_partof_dut:
  assumes "file_type f = ''verilogSource'' \<or> file_type f = ''systemVerilogSource''"
    and "is_include_file f = None"
    and "configure_main pvs self (xs @ f # ys, incdirs) w = (Inr (), w')"
  shows "(partof f = Some (PyStr ''dut'') \<longrightarrow>
            files w' (emu_filelist_file self) =
              Some (concat (map (entry_line pvs self incdirs) (emu_entries xs)) @
                    (str_join '' '' (compose_args pvs self incdirs f) @ newline) @
                    concat (map (entry_line pvs self incdirs) (emu_entries ys))) \<and>
            files w' (sim_filelist_file self) =
              Some (concat (map (entry_line pvs self incdirs) (sim_entries xs)) @
                    concat (map (entry_line pvs self incdirs) (sim_entries ys)))) \<and>
         (partof f = None \<or> (\<exists>v. partof f = Some v \<and> v \<noteq> PyStr ''dut'') \<longrightarrow>
            files w' (emu_filelist_file self) =
              Some (concat (map (entry_line pvs self incdirs) (emu_entries xs)) @
                    concat (map (entry_line pvs self incdirs) (emu_entries ys))) \<and>
            files w' (sim_filelist_file self) =
              Some (concat (map (entry_line pvs self incdirs) (sim_entries xs)) @
                    (str_join '' '' (compose_args pvs self incdirs f) @ newline) @
                    concat (map (entry_line pvs self incdirs) (sim_entries ys))))"
proof -
  note fs = configure_main_files [OF assms(3)]
  note ne = filelist_files_distinct [of self]
  have el: "eligible f"
    using assms(1,2) by (simp add: eligible_def)
  have e: "emu_entries (xs @ f # ys) =
           emu_entries xs @ (if partof f = Some (PyStr ''dut'') then [f] else []) @ emu_entries ys"
    and s: "sim_entries (xs @ f # ys) =
           sim_entries xs @ (if partof f = Some (PyStr ''dut'') then [] else [f]) @ sim_entries ys"
    using el by (simp_all add: emu_entries_def sim_entries_def belongs_to_dut_def)
  show ?thesis
    using ne by (auto simp: fs e s entry_line_def)
qed

theorem emulation_file_requires_partof_dut_witness:
  "is_include_file example_other = None \<and> partof example_other = Some (PyStr ''DUT'') \<and>
   fst (configure_main (\<lambda>s. s) example_self ([example_dut] @ example_other # [example_tb], [])
          example_world) = Inr () \<and>
   files (snd (configure_main (\<lambda>s. s) example_self
                 ([example_dut] @ example_other # [example_tb], []) example_world))
     ''/w/top.emu.f'' = Some (''-sv -lib worklib +define+FOO=1 dut.sv'' @ newline) \<and>
   files (snd (configure_main (\<lambda>s. s) example_self
                 ([example_dut] @ example_other # [example_tb], []) example_world))
     ''/w/top.sim.f'' =
     Some (''+define+FOO=1 mem.v'' @ newline @ ''+define+FOO=1 tb.v'' @ newline)"
proof -
  let ?run = "configure_main (\<lambda>s. s) example_self
                ([example_dut] @ example_other # [example_tb], []) example_world"
  have k: "file_type example_other = ''verilogSource'' \<or>
           file_type example_other = ''systemVerilogSource''"
    and i: "is_include_file example_other = None"
    and p: "partof example_other = None \<or>
            (\<exists>v. partof example_other = Some v \<and> v \<noteq> PyStr ''dut'')"
    by (simp_all add: example_other_def)
  have r: "fst ?run = Inr ()"
    by (rule example_world_run)
  from emulation_file_requires_partof_dut [OF k i collapse_Inr [OF r]] p i r
  show ?thesis
    by (simp add: example_paths emu_entries_def sim_entries_def example_flags entry_line_def)
      (simp add: compose_args_def example_self_def example_dut_def example_tb_def
        example_other_def)
qed

text \<open>
  C10. Both files are opened, hence created or truncated, before the loop over the
  descriptors: after a successful run both exist and the file objects the run opened are
  closed again, and when no descriptor is eligible (the empty list included) both
  files are empty. When \<open>_dump\<close> has printed and the second \<open>open\<close> fails, the
  emulation file is already there and empty, whatever the descriptors are.
\<close>

theorem both_filelists_exist_and_are_closed:
  "(\<forall>w'. configure_main pvs self (src_files, incdirs) w = (Inr (), w') \<longrightarrow>
      files w' (emu_filelist_file self) \<noteq> None \<and>
      files w' (sim_filelist_file self) \<noteq> None \<and>
      handles w' = handles w \<and>
      (filter eligible src_files = [] \<longrightarrow>
         files w' (emu_filelist_file self) = Some [] \<and>
         files w' (sim_filelist_file self) = Some [])) \<and>
   (fst (dump pvs self [] w) = Inr () \<longrightarrow>
    open_error w (emu_filelist_file self) = None \<longrightarrow>
    open_error w (sim_filelist_file self) \<noteq> None \<longrightarrow>
      files (snd (configure_main pvs self (src_files, incdirs) w)) (emu_filelist_file self) =
        Some [])"
proof (intro conjI allI impI)
  fix w'
  assume run: "configure_main pvs self (src_files, incdirs) w = (Inr (), w')"
  then have ok: "fst (configure_main pvs self (src_files, incdirs) w) = Inr ()"
    and w': "w' = snd (configure_main pvs self (src_files, incdirs) w)"
    by simp_all
  note r = configure_main_result(1,2) [OF ok, folded w']
  note ne = filelist_files_distinct [of self]
  show "files w' (emu_filelist_file self) \<noteq> None"
    using ne by (simp add: r)
  show "files w' (sim_filelist_file self) \<noteq> None"
    by (simp add: r)
  show "handles w' = handles w"
    by (simp add: r)
  assume none: "filter eligible src_files = []"
  have "emu_entries src_files = []" "sim_entries src_files = []"
    using none by (simp_all add: emu_entries_def sim_entries_def filter_empty_conv)
  then show "files w' (emu_filelist_file self) = Some []"
    and "files w' (sim_filelist_file self) = Some []"
    using ne by (simp_all add: r)
next
  assume "fst (dump pvs self [] w) = Inr ()"
    and "open_error w (emu_filelist_file self) = None"
    and "open_error w (sim_filelist_file self) \<noteq> None"
  then show "files (snd (configure_main pvs self (src_files, incdirs) w))
               (emu_filelist_file self) = Some []"
    by (auto simp: configure_main_sim_error(3))
qed

theorem both_filelists_exist_and_are_closed_witness:
  "fst (configure_main (\<lambda>s. s) example_self ([], []) example_stale_world) = Inr () \<and>
   files example_stale_world ''/w/top.emu.f'' = Some ''old line'' \<and>
   files example_stale_world ''/w/top.sim.f'' = None \<and>
   files (snd (configure_main (\<lambda>s. s) example_self ([], []) example_stale_world))
     ''/w/top.emu.f'' = Some [] \<and>
   files (snd (configure_main (\<lambda>s. s) example_self ([], []) example_stale_world))
     ''/w/top.sim.f'' = Some [] \<and>
   handles (snd (configure_main (\<lambda>s. s) example_self ([], []) example_stale_world)) =
     [''/w/log''] \<and>
   fst (dump (\<lambda>s. s) example_self [] example_sim_denied) = Inr () \<and>
   open_error example_sim_denied (emu_filelist_file example_self) = None \<and>
   open_error example_sim_denied (sim_filelist_file example_self) \<noteq> None \<and>
   files (snd (configure_main (\<lambda>s. s) example_self example_fileset example_sim_denied))
     ''/w/top.emu.f'' = Some []"
proof -
  have r: "fst (configure_main (\<lambda>s. s) example_self ([], []) example_stale_world) = Inr ()"
    by (rule example_stale_run)
  have s: "open_error example_sim_denied (emu_filelist_file example_self) = None"
          "open_error example_sim_denied (sim_filelist_file example_self) \<noteq> None"
    by (simp_all add: example_paths example_sim_denied_def)
  let ?run = "configure_main (\<lambda>s. s) example_self ([], []) example_stale_world"
  have d: "fst (dump (\<lambda>s. s) example_self [] example_sim_denied) = Inr ()"
    by (rule example_dumps(3))
  have none: "filter eligible ([] :: src_file list) = []"
    by simp
  from both_filelists_exist_and_are_closed
         [where pvs = "\<lambda>s. s" and self = example_self and src_files = "[]" and incdirs = "[]"
            and w = example_stale_world]
       collapse_Inr [OF r] none
  have a: "files (snd ?run) (emu_filelist_file example_self) = Some [] \<and>
           files (snd ?run) (sim_filelist_file example_self) = Some [] \<and>
           handles (snd ?run) = handles example_stale_world"
    by blast
  from both_filelists_exist_and_are_closed
         [where pvs = "\<lambda>s. s" and self = example_self and src_files = "fst example_fileset"
            and incdirs = "snd example_fileset" and w = example_sim_denied]
       d s
  have b: "files (snd (configure_main (\<lambda>s. s) example_self example_fileset example_sim_denied))
             (emu_filelist_file example_self) = Some []"
    by simp
  from a b r d s show ?thesis
    by (simp add: example_paths example_stale_world_def)
qed

end
